theory Spec2Isabelle
  imports Main "HOL-Library.AList"
begin

section \<open>Data model\<close>

text \<open>
  The module \<^verbatim>\<open>transifex_api/jsonapi.py\<close> maps JSON:API resource objects to Python
  instances. Python dictionaries keep insertion order and have unique keys; they are
  association lists here, read with \<^const>\<open>map_of\<close> and written with
  \<^const>\<open>AList.update\<close> (an existing key keeps its place, a new key goes last).
  \<open>deepcopy\<close> is the identity on values.
\<close>

datatype json =
    JNull
  | JBool bool
  | JInt int
  | JStr string
  | JList "json list"
  | JDict "(string \<times> json) list"

text \<open>The exceptions the module raises or lets through, with their messages.\<close>

datatype error =
    ValueError string
  | TypeError string
  | AttributeError string
  | KeyError string
  | TransportError string

text \<open>A resource identifier \<^verbatim>\<open>{'type': ..., 'id': ...}\<close>; \<open>None\<close> is Python's \<open>None\<close>.\<close>

record ident =
  itype :: "string option"
  iid :: "string option"

text \<open>
  A non-null relationship, as listed in the module's docstring: a singular one has a
  \<^verbatim>\<open>'data'\<close> key holding a resource identifier, a plural one has no \<^verbatim>\<open>'data'\<close> key.
  \<open>data = None\<close> and \<open>dlinks = None\<close> mean that the key is absent. The null singular
  relationship is the value \<open>None\<close> of type \<open>descriptor option\<close>.
\<close>

record descriptor =
  data :: "ident option"
  dlinks :: "(string \<times> string) list option"

text \<open>
  A class derived from \<open>Resource\<close>: its name, the class constants \<open>TYPE\<close> and
  \<open>EDITABLE\<close>, and \<open>c_members\<close>, the names ordinary attribute lookup finds on an
  instance of the class without reaching \<open>__getattr__\<close> (methods, properties, class
  constants and the five instance fields).
\<close>

record klass =
  c_name :: string
  c_TYPE :: "string option"
  c_EDITABLE :: "string list option"
  c_members :: "string list"

text \<open>
  A resource object as it travels on the wire (a response's \<^verbatim>\<open>'data'\<close>, an item of
  \<^verbatim>\<open>'included'\<close>, the payload of a save). In \<open>o_attributes\<close>, \<open>o_relationships\<close> and
  \<open>o_links\<close>, \<open>None\<close> is an absent key.
\<close>

record resobj =
  o_type :: "string option"
  o_id :: "string option"
  o_attributes :: "(string \<times> json) list option"
  o_relationships :: "(string \<times> descriptor option) list option"
  o_links :: "(string \<times> string) list option"

text \<open>
  A parsed response body: a document about one resource object with its sibling
  \<^verbatim>\<open>'included'\<close> list, a document about a list of them, or no body.
\<close>

datatype document =
    Single resobj "resobj list option"
  | Collection "resobj list"
  | Empty

text \<open>
  Modelled from the spec: the class \<open>Queryset\<close> (module \<^verbatim>\<open>.queryset\<close>) is imported by
  the module and is not among the sources. Sections 3 and 4.9 of the specification: a
  Queryset holds the anchoring URL or the raw page payload; it is unfetched until
  first accessed, at which point it performs one request and caches the page, so
  constructing one performs no request; \<open>from_data\<close> seeds a Queryset as already
  fetched from a response body in hand, with no request either.
\<close>

record queryset =
  anchor :: "string option"
  page :: "document option"

definition Queryset :: "string \<Rightarrow> queryset" where
  "Queryset url = \<lparr>anchor = Some url, page = None\<rparr>"

definition from_data :: "document \<Rightarrow> queryset" where
  "from_data response_body = \<lparr>anchor = None, page = Some response_body\<rparr>"

text \<open>
  An instance of \<open>Resource\<close> or of a subclass: its class and the five instance
  fields \<open>id\<close>, \<open>attributes\<close>, \<open>relationships\<close>, \<open>links\<close> and \<open>related\<close>. An entry of
  \<open>related\<close> is \<open>None\<close>, an instance or a Queryset.
\<close>

datatype resource =
  Resource (klass_of: klass) (rid: "string option")
    (attributes: "(string \<times> json) list")
    (relationships: "(string \<times> descriptor option) list")
    (links: "(string \<times> string) list")
    (related: "(string \<times> relval) list")
and relval =
    RNone
  | RResource resource
  | RQueryset queryset

text \<open>
  A value of the \<open>relationships\<close> argument of the constructor: an instance
  (\<open>isinstance(value, Resource)\<close>) or a relationship as above.
\<close>

datatype relarg =
    RelInstance resource
  | RelRaw "descriptor option"

text \<open>
  The keyword arguments of \<open>_overwrite\<close>, which are also the keys of a dictionary
  passed as \<open>**data\<close>. \<open>None\<close> is the default of each, so it stands for an absent
  argument and for an explicit \<open>None\<close>.
\<close>

record kwargs =
  kw_id :: "string option"
  kw_attributes :: "(string \<times> json) list option"
  kw_relationships :: "(string \<times> relarg) list option"
  kw_links :: "(string \<times> string) list option"
  kw_related :: "(string \<times> relval) list option"
  kw_included :: "resobj list option"
  kw_type :: "string option"

definition no_kwargs :: kwargs where
  "no_kwargs = \<lparr>kw_id = None, kw_attributes = None, kw_relationships = None,
     kw_links = None, kw_related = None, kw_included = None, kw_type = None\<rparr>"

text \<open>
  The dictionary passed as \<open>data\<close> to the constructor or to \<open>Resource.new\<close>. With a
  \<^verbatim>\<open>'data'\<close> key it is an envelope: a response body \<^verbatim>\<open>{'data': {...}, 'included': [...]}\<close>
  or a relationship \<^verbatim>\<open>{'data': {'type': ..., 'id': ...}}\<close>; the second component is the
  sibling \<^verbatim>\<open>'included'\<close> list. Without a \<^verbatim>\<open>'data'\<close> key its keys are the keyword
  arguments themselves.
\<close>

datatype payload =
    Envelope kwargs "resobj list option"
  | Bare kwargs

text \<open>
  A value handed to \<open>Resource.as_resource\<close>, to \<open>__eq__\<close> or assigned to an attribute:
  an instance, a dictionary, or a value that is neither (\<open>None\<close>, written \<open>JNull\<close>, a
  string, a number, a list). A dictionary is always a \<open>VDict\<close>.
\<close>

datatype pyval =
    VResource resource
  | VDict payload
  | VOther json

text \<open>
  The bulk operations take items of several shapes and pass their components on
  without looking at them much. A component is \<open>None\<close>, a string, or a dictionary
  (of attribute values, or of relationship values that may be instances).
\<close>

datatype bulkval =
    BNone
  | BStr string
  | BDict "(string \<times> pyval) list"

text \<open>
  An item of a bulk operation: an instance; a dictionary, given by what
  \<^verbatim>\<open>item.get('attributes', None)\<close>, \<^verbatim>\<open>item.get('relationships', None)\<close> and
  \<^verbatim>\<open>item.get('id', None)\<close> return; an iterable without \<open>get\<close> (a tuple, a list, a
  string), given by its elements; or a value that is neither, which cannot be
  iterated (a number, a boolean, \<open>None\<close>).
\<close>

datatype item =
    ItemResource resource
  | ItemMapping bulkval bulkval bulkval
  | ItemSequence "bulkval list"
  | ItemScalar json

text \<open>
  One entry of a bulk payload: \<^verbatim>\<open>{'type': ..., 'id': ..., 'attributes': ...,
  'relationships': {...}}\<close>. \<open>e_id = BNone\<close> is a payload without \<^verbatim>\<open>'id'\<close>, and \<open>None\<close>
  in the last two fields is an absent key.
\<close>

record bulk_entry =
  e_type :: "string option"
  e_id :: bulkval
  e_attributes :: "bulkval option"
  e_relationships :: "(string \<times> descriptor) list option"

section \<open>The class registry\<close>

text \<open>
  The base class: \<open>TYPE = None\<close>, \<open>EDITABLE = None\<close>. Its members are the five instance
  fields and the names its body defines; the names every Python object has are not
  listed.
\<close>

definition Resource_members :: "string list" where
  "Resource_members =
    [''id'', ''attributes'', ''relationships'', ''links'', ''related'',
     ''TYPE'', ''EDITABLE'', ''__init__'', ''_overwrite'', ''new'', ''as_resource'',
     ''a'', ''R'', ''r'', ''__getattr__'', ''__setattr__'',
     ''reload'', ''get'', ''list'', ''_queryset_method'', ''filter'', ''page'', ''include'',
     ''sort'', ''fields'', ''extra'', ''fetch'', ''save'', ''_save_existing'', ''_save_new'',
     ''create'', ''delete'', ''change'', ''add'', ''remove'', ''reset'',
     ''_edit_relationship'', ''_edit_plural_relationship'', ''bulk_delete'',
     ''bulk_create'', ''bulk_update'', ''_extract_from_item'', ''__eq__'', ''__repr__'',
     ''__copy__'', ''as_resource_identifier'', ''as_relationship'', ''_get_url'']"

definition Resource_class :: klass where
  "Resource_class =
    \<lparr>c_name = ''Resource'', c_TYPE = None, c_EDITABLE = None,
     c_members = Resource_members\<rparr>"

text \<open>
  \<open>_JsonApiMeta.__new__\<close>: a class whose body sets a non-null \<open>TYPE\<close> is stored in the
  registry under that name; a later class with the same \<open>TYPE\<close> replaces it.
\<close>

definition register :: "(string \<times> klass) list \<Rightarrow> klass \<Rightarrow> (string \<times> klass) list" where
  "register registry k =
    (case c_TYPE k of
       None \<Rightarrow> registry
     | Some t \<Rightarrow> AList.update t k registry)"

text \<open>\<open>_jsonapi_global.registry.get(type, Resource)\<close>.\<close>

definition registry_get :: "(string \<times> klass) list \<Rightarrow> string option \<Rightarrow> klass" where
  "registry_get registry t =
    (case t of
       None \<Rightarrow> Resource_class
     | Some n \<Rightarrow> (case map_of registry n of Some k \<Rightarrow> k | None \<Rightarrow> Resource_class))"

section \<open>Encoding an instance\<close>

definition as_resource_identifier :: "resource \<Rightarrow> ident" where
  "as_resource_identifier x = \<lparr>itype = c_TYPE (klass_of x), iid = rid x\<rparr>"

definition as_relationship :: "resource \<Rightarrow> descriptor" where
  "as_relationship x = \<lparr>data = Some (as_resource_identifier x), dlinks = None\<rparr>"

text \<open>An f-string prints \<open>None\<close> as the word.\<close>

definition py_str :: "string option \<Rightarrow> string" where
  "py_str s = (case s of None \<Rightarrow> ''None'' | Some v \<Rightarrow> v)"

definition get_url :: "resource \<Rightarrow> string" where
  "get_url x =
    (case map_of (links x) ''self'' of
       Some u \<Rightarrow> u
     | None \<Rightarrow> ''/'' @ py_str (c_TYPE (klass_of x)) @ ''/'' @ py_str (rid x))"

section \<open>Construction\<close>

text \<open>
  \<open>Resource.new(relationship)\<close> for a relationship with a \<^verbatim>\<open>'data'\<close> key, as
  \<open>_overwrite\<close> calls it: \<open>new\<close> unwraps \<^verbatim>\<open>'data'\<close>, looks the type up and calls the
  class with the identifier's \<open>id\<close> alone, so every other field is empty.
\<close>

definition new_identifier :: "(string \<times> klass) list \<Rightarrow> ident \<Rightarrow> resource" where
  "new_identifier registry i = Resource (registry_get registry (itype i)) (iid i) [] [] [] []"

text \<open>
  \<open>_overwrite\<close>, up to the loop that fills \<open>related\<close> from the relationships
  (lines 187 to 214).
\<close>

definition encode_relationship :: "relarg \<Rightarrow> descriptor option" where
  "encode_relationship v =
    (case v of
       RelInstance x \<Rightarrow> Some (as_relationship x)
     | RelRaw d \<Rightarrow> d)"

definition related_of ::
  "(string \<times> klass) list \<Rightarrow> (string \<times> descriptor option) list \<Rightarrow> (string \<times> relval) list"
where
  "related_of registry R =
    fold (\<lambda>(relationship_name, relationship) r.
            case relationship of
              None \<Rightarrow> AList.update relationship_name RNone r
            | Some d \<Rightarrow>
                (case data d of
                   Some i \<Rightarrow> AList.update relationship_name
                               (RResource (new_identifier registry i)) r
                 | None \<Rightarrow> r))
         R []"

definition overwrite_fields :: "(string \<times> klass) list \<Rightarrow> klass \<Rightarrow> kwargs \<Rightarrow> resource" where
  "overwrite_fields registry k kw =
    (let a = (case kw_attributes kw of Some a \<Rightarrow> a | None \<Rightarrow> []);
         R = (case kw_relationships kw of
                Some rels \<Rightarrow>
                  fold (\<lambda>(key, v) R. AList.update key (encode_relationship v) R) rels []
              | None \<Rightarrow> []);
         l = (case kw_links kw of Some l \<Rightarrow> l | None \<Rightarrow> [])
     in Resource k (kw_id kw) a R l (related_of registry R))"

text \<open>
  \<open>Resource.new(included[key])\<close>: an included resource object has no \<^verbatim>\<open>'data'\<close> key,
  so \<open>new\<close> takes its \<^verbatim>\<open>'type'\<close> for the lookup and calls the class with the other
  keys.
\<close>

definition resobj_kwargs :: "resobj \<Rightarrow> kwargs" where
  "resobj_kwargs item =
    \<lparr>kw_id = o_id item, kw_attributes = o_attributes item,
     kw_relationships = map_option (map (\<lambda>(n, d). (n, RelRaw d))) (o_relationships item),
     kw_links = o_links item, kw_related = None, kw_included = None,
     kw_type = o_type item\<rparr>"

definition new_included :: "(string \<times> klass) list \<Rightarrow> resobj \<Rightarrow> resource" where
  "new_included registry item =
    overwrite_fields registry (registry_get registry (o_type item)) (resobj_kwargs item)"

text \<open>
  The dictionary \<^verbatim>\<open>{(item['type'], item['id']): item for item in included}\<close>: a later
  item with the same key replaces an earlier one.
\<close>

definition included_index ::
  "resobj list \<Rightarrow> ((string option \<times> string option) \<times> resobj) list"
where
  "included_index items =
    fold (\<lambda>item m. AList.update (o_type item, o_id item) item m) items []"

definition resolve_included ::
  "(string \<times> klass) list \<Rightarrow> resobj list \<Rightarrow> (string \<times> descriptor option) list \<Rightarrow>
   (string \<times> relval) list \<Rightarrow> (string \<times> relval) list"
where
  "resolve_included registry items R r0 =
    (let included = included_index items
     in fold (\<lambda>(relationship_name, relationship) r.
               case relationship of
                 None \<Rightarrow> r
               | Some d \<Rightarrow>
                   (case data d of
                      None \<Rightarrow> r
                    | Some i \<Rightarrow>
                        (case map_of included (itype i, iid i) of
                           Some item \<Rightarrow> AList.update relationship_name
                                          (RResource (new_included registry item)) r
                         | None \<Rightarrow> r)))
             R r0)"

text \<open>\<open>self.r.update(related)\<close>.\<close>

definition dict_update :: "('k \<times> 'v) list \<Rightarrow> ('k \<times> 'v) list \<Rightarrow> ('k \<times> 'v) list" where
  "dict_update d other = fold (\<lambda>(k, v) m. AList.update k v m) other d"

text \<open>\<open>_overwrite\<close>; the \<open>type\<close> argument is accepted and not used.\<close>

definition overwrite :: "(string \<times> klass) list \<Rightarrow> klass \<Rightarrow> kwargs \<Rightarrow> resource" where
  "overwrite registry k kw =
    (let x = overwrite_fields registry k kw;
         r1 = (case kw_included kw of
                 Some items \<Rightarrow> resolve_included registry items (relationships x) (related x)
               | None \<Rightarrow> related x);
         r2 = (case kw_related kw of
                 Some rel \<Rightarrow> dict_update r1 rel
               | None \<Rightarrow> r1)
     in Resource k (rid x) (attributes x) (relationships x) (links x) r2)"

text \<open>
  \<open>__init__\<close> of class \<open>k\<close>. The constructor has no \<open>included\<close> parameter, so that
  keyword is a \<open>TypeError\<close>; a dictionary passed as \<open>data\<close> is unwrapped once when it
  has a \<^verbatim>\<open>'data'\<close> key and then spread over \<open>_overwrite\<close>.
\<close>

definition init ::
  "(string \<times> klass) list \<Rightarrow> klass \<Rightarrow> payload option \<Rightarrow> kwargs \<Rightarrow> error + resource"
where
  "init registry k dat kw =
    (if kw_included kw \<noteq> None then
       Inl (TypeError ''__init__() got an unexpected keyword argument: included'')
     else if kw_type kw \<noteq> None \<and> kw_type kw \<noteq> c_TYPE k then
       Inl (ValueError ''Invalid type'')
     else
       (case dat of
          Some (Envelope d inc) \<Rightarrow> Inr (overwrite registry k d)
        | Some (Bare d) \<Rightarrow> Inr (overwrite registry k d)
        | None \<Rightarrow> Inr (overwrite registry k (kw\<lparr>kw_type := None\<rparr>))))"

text \<open>
  \<open>Resource.new\<close>. With \<open>data\<close> the call is repeated as \<open>cls.new(**data)\<close>: the
  \<^verbatim>\<open>'type'\<close> key becomes the \<open>type\<close> argument and the other keys go to the class found
  in the registry.
\<close>

definition new_kw :: "(string \<times> klass) list \<Rightarrow> string option \<Rightarrow> kwargs \<Rightarrow> error + resource" where
  "new_kw registry t kw = init registry (registry_get registry t) None (kw\<lparr>kw_type := None\<rparr>)"

definition new ::
  "(string \<times> klass) list \<Rightarrow> payload option \<Rightarrow> string option \<Rightarrow> kwargs \<Rightarrow> error + resource"
where
  "new registry dat t kw =
    (case dat of
       Some (Envelope d inc) \<Rightarrow> new_kw registry (kw_type d) d
     | Some (Bare d) \<Rightarrow> new_kw registry (kw_type d) d
     | None \<Rightarrow> new_kw registry t kw)"

text \<open>
  \<open>Resource.as_resource\<close>: \<open>cls.new(data)\<close>, and \<open>data\<close> itself when that raises. For
  an instance the test \<^verbatim>\<open>'data' in data\<close> raises \<open>TypeError\<close> (the class defines no
  container protocol); for \<open>None\<close> the call is \<open>new()\<close>; any other value that is not a
  dictionary fails in the membership test or in \<open>**data\<close>.
\<close>

definition as_resource :: "(string \<times> klass) list \<Rightarrow> pyval \<Rightarrow> pyval" where
  "as_resource registry v =
    (case v of
       VResource x \<Rightarrow> v
     | VDict p \<Rightarrow>
         (case new registry (Some p) None no_kwargs of
            Inr x \<Rightarrow> VResource x
          | Inl e \<Rightarrow> v)
     | VOther j \<Rightarrow>
         (if j = JNull then
            (case new registry None None no_kwargs of
               Inr x \<Rightarrow> VResource x
             | Inl e \<Rightarrow> v)
          else v))"

text \<open>\<open>other.as_resource_identifier()\<close> on a value that may not be an instance.\<close>

definition identifier_of :: "pyval \<Rightarrow> error + ident" where
  "identifier_of v =
    (case v of
       VResource x \<Rightarrow> Inr (as_resource_identifier x)
     | VDict p \<Rightarrow> Inl (AttributeError ''as_resource_identifier'')
     | VOther j \<Rightarrow> Inl (AttributeError ''as_resource_identifier''))"

text \<open>\<open>__eq__\<close>.\<close>

definition eq :: "(string \<times> klass) list \<Rightarrow> resource \<Rightarrow> pyval \<Rightarrow> error + bool" where
  "eq registry self other =
    (case identifier_of (as_resource registry other) of
       Inl e \<Rightarrow> Inl e
     | Inr i \<Rightarrow> Inr (as_resource_identifier self = i))"

section \<open>The transport\<close>

text \<open>
  The body sent as \<^verbatim>\<open>json={'data': ...}\<close>: a resource object (save), a resource
  identifier (change), a list of identifiers (add, remove, reset, bulk delete) or the
  list of entries of a bulk create or update.
\<close>

datatype body =
    DataObject resobj
  | DataIdentifier ident
  | DataIdentifiers "ident list"
  | DataBulk "bulk_entry list"

record request =
  req_method :: string
  url :: string
  json_body :: "body option"
  params :: "(string \<times> string) list option"
  bulk :: bool

text \<open>
  Modelled from the spec: the function \<open>_jsonapi_request\<close> (module \<^verbatim>\<open>.requests\<close>) is
  imported by the module and is not among the sources. Section 6 of the
  specification: it executes one request and returns the parsed body, or raises a
  transport error. The server is a parameter: its answer to a request may depend on
  the requests made before. Every call is appended to the log, so the length of the
  log counts the requests issued.
\<close>

type_synonym server = "request list \<Rightarrow> request \<Rightarrow> error + document"

definition jsonapi_request ::
  "server \<Rightarrow> request list \<Rightarrow> request \<Rightarrow> (error + document) \<times> request list"
where
  "jsonapi_request srv log req = (srv log req, log @ [req])"

section \<open>Fetching\<close>

text \<open>\<^verbatim>\<open>','.join(include)\<close>.\<close>

fun join_comma :: "string list \<Rightarrow> string" where
  "join_comma [] = []"
| "join_comma [s] = s"
| "join_comma (s # t # ss) = s @ '','' @ join_comma (t # ss)"

definition reload_request :: "resource \<Rightarrow> string list option \<Rightarrow> request" where
  "reload_request self include =
    \<lparr>req_method = ''get'', url = get_url self, json_body = None,
     params = map_option (\<lambda>names. [(''include'', join_comma names)]) include,
     bulk = False\<rparr>"

text \<open>
  \<open>reload\<close>: one request, then \<open>_overwrite\<close> with the body's \<^verbatim>\<open>'data'\<close> spread over
  the keyword arguments and its \<^verbatim>\<open>'included'\<close> list. A body that is not a document
  about one resource object fails in \<^verbatim>\<open>response_body.get\<close> or in \<open>**\<close>.
\<close>

definition reload ::
  "(string \<times> klass) list \<Rightarrow> server \<Rightarrow> resource \<Rightarrow> string list option \<Rightarrow> request list \<Rightarrow>
   (error + resource) \<times> request list"
where
  "reload registry srv self include log =
    (case jsonapi_request srv log (reload_request self include) of
       (Inl e, log') \<Rightarrow> (Inl e, log')
     | (Inr (Single d inc), log') \<Rightarrow>
         (Inr (overwrite registry (klass_of self) ((resobj_kwargs d)\<lparr>kw_included := inc\<rparr>)),
          log')
     | (Inr (Collection ds), log') \<Rightarrow>
         (Inl (TypeError ''argument after ** must be a mapping, not list''), log')
     | (Inr Empty, log') \<Rightarrow> (Inl (AttributeError ''get''), log'))"

text \<open>Truth values of the tests in \<open>fetch\<close>.\<close>

definition is_singular_fetched :: "relval option \<Rightarrow> bool" where
  "is_singular_fetched v =
    (case v of
       Some (RResource x) \<Rightarrow> attributes x \<noteq> [] \<or> relationships x \<noteq> []
     | _ \<Rightarrow> False)"

definition is_plural_fetched :: "relval option \<Rightarrow> bool" where
  "is_plural_fetched v = (case v of Some (RQueryset q) \<Rightarrow> True | _ \<Rightarrow> False)"

definition set_related :: "resource \<Rightarrow> string \<Rightarrow> relval \<Rightarrow> resource" where
  "set_related self name v =
    Resource (klass_of self) (rid self) (attributes self) (relationships self) (links self)
      (AList.update name v (related self))"

text \<open>
  The body of the loop of \<open>fetch\<close> for one relationship name. An exception leaves
  the instance as it was. \<open>self.r[name].reload()\<close> needs an instance in the cache: a
  missing entry is a \<open>KeyError\<close>, and \<open>None\<close> or a Queryset has no \<open>reload\<close>.
\<close>

definition fetch_one ::
  "(string \<times> klass) list \<Rightarrow> server \<Rightarrow> resource \<Rightarrow> string \<Rightarrow> bool \<Rightarrow> request list \<Rightarrow>
   (error + resource) \<times> request list"
where
  "fetch_one registry srv self relationship_name force log =
    (case map_of (relationships self) relationship_name of
       None \<Rightarrow> (Inl (ValueError relationship_name), log)
     | Some None \<Rightarrow> (Inr self, log)
     | Some (Some relationship) \<Rightarrow>
         (let cached = map_of (related self) relationship_name in
          if (is_singular_fetched cached \<or> is_plural_fetched cached) \<and> \<not> force then
            (Inr self, log)
          else if data relationship \<noteq> None then
            (case cached of
               None \<Rightarrow> (Inl (KeyError relationship_name), log)
             | Some RNone \<Rightarrow> (Inl (AttributeError ''reload''), log)
             | Some (RQueryset q) \<Rightarrow> (Inl (AttributeError ''reload''), log)
             | Some (RResource x) \<Rightarrow>
                 (case reload registry srv x None log of
                    (Inl e, log') \<Rightarrow> (Inl e, log')
                  | (Inr x', log') \<Rightarrow>
                      (Inr (set_related self relationship_name (RResource x')), log')))
          else
            (case dlinks relationship of
               None \<Rightarrow> (Inl (KeyError ''links''), log)
             | Some l \<Rightarrow>
                 (case map_of l ''related'' of
                    None \<Rightarrow> (Inl (KeyError ''related''), log)
                  | Some u \<Rightarrow>
                      (Inr (set_related self relationship_name (RQueryset (Queryset u))),
                       log)))))"

text \<open>
  \<open>fetch\<close>: the names in turn. The first exception ends the call; what the earlier
  names changed stays, so the result holds the instance as the call left it.
\<close>

fun fetch ::
  "(string \<times> klass) list \<Rightarrow> server \<Rightarrow> resource \<Rightarrow> string list \<Rightarrow> bool \<Rightarrow> request list \<Rightarrow>
   (error option \<times> resource) \<times> request list"
where
  "fetch registry srv self [] force log = ((None, self), log)"
| "fetch registry srv self (n # ns) force log =
    (case fetch_one registry srv self n force log of
       (Inl e, log') \<Rightarrow> ((Some e, self), log')
     | (Inr self', log') \<Rightarrow> fetch registry srv self' ns force log')"

section \<open>Saving\<close>

text \<open>Python's truth value of an id: \<open>None\<close> and the empty string are false.\<close>

definition truthy_id :: "string option \<Rightarrow> bool" where
  "truthy_id i = (case i of None \<Rightarrow> False | Some s \<Rightarrow> s \<noteq> [])"

text \<open>\<^verbatim>\<open>payload.setdefault(key, {})[field] = value\<close> on an optional dictionary.\<close>

definition setdefault_put ::
  "(string \<times> 'v) list option \<Rightarrow> string \<Rightarrow> 'v \<Rightarrow> (string \<times> 'v) list option"
where
  "setdefault_put d field v =
    Some (AList.update field v (case d of None \<Rightarrow> [] | Some m \<Rightarrow> m))"

text \<open>
  \<^verbatim>\<open>editable_fields = fields or self.EDITABLE\<close>, where \<open>fields\<close> is the tuple of
  positional arguments, here \<open>field_names\<close>.
\<close>

definition editable_fields :: "resource \<Rightarrow> string list \<Rightarrow> string list option" where
  "editable_fields self field_names =
    (if field_names \<noteq> [] then Some field_names else c_EDITABLE (klass_of self))"

definition put_field :: "resource \<Rightarrow> string \<Rightarrow> resobj \<Rightarrow> resobj" where
  "put_field self field payload =
    (case map_of (attributes self) field of
       Some v \<Rightarrow> payload\<lparr>o_attributes := setdefault_put (o_attributes payload) field v\<rparr>
     | None \<Rightarrow>
         (case map_of (relationships self) field of
            Some d \<Rightarrow>
              payload\<lparr>o_relationships := setdefault_put (o_relationships payload) field d\<rparr>
          | None \<Rightarrow> payload))"

definition save_existing_payload :: "resource \<Rightarrow> string list \<Rightarrow> resobj" where
  "save_existing_payload self field_names =
    (let payload = \<lparr>o_type = itype (as_resource_identifier self),
                     o_id = iid (as_resource_identifier self),
                     o_attributes = None, o_relationships = None, o_links = None\<rparr>
     in case editable_fields self field_names of
          Some fs \<Rightarrow> fold (put_field self) fs payload
        | None \<Rightarrow>
            payload\<lparr>o_attributes :=
                      (if attributes self \<noteq> [] then Some (attributes self) else None),
                    o_relationships :=
                      (if relationships self \<noteq> [] then Some (relationships self) else None)\<rparr>)"

definition save_existing ::
  "server \<Rightarrow> resource \<Rightarrow> string list \<Rightarrow> request list \<Rightarrow> (error + document) \<times> request list"
where
  "save_existing srv self field_names log =
    jsonapi_request srv log
      \<lparr>req_method = ''patch'', url = get_url self,
       json_body = Some (DataObject (save_existing_payload self field_names)),
       params = None, bulk = False\<rparr>"

text \<open>\<open>_save_new\<close>; the payload has no \<^verbatim>\<open>'id'\<close> key.\<close>

definition save_new :: "server \<Rightarrow> resource \<Rightarrow> request list \<Rightarrow> (error + document) \<times> request list"
where
  "save_new srv self log =
    jsonapi_request srv log
      \<lparr>req_method = ''post'', url = ''/'' @ py_str (c_TYPE (klass_of self)),
       json_body = Some (DataObject
         \<lparr>o_type = c_TYPE (klass_of self), o_id = None,
          o_attributes = (if attributes self \<noteq> [] then Some (attributes self) else None),
          o_relationships =
            (if relationships self \<noteq> [] then Some (relationships self) else None),
          o_links = None\<rparr>),
       params = None, bulk = False\<rparr>"

text \<open>
  The loop of \<open>save\<close> over the cached related objects: \<open>new_id\<close> is
  \<^verbatim>\<open>data['relationships'][name]['data']['id']\<close>, or \<open>None\<close> when any step of that path
  fails.
\<close>

definition response_id :: "resobj \<Rightarrow> string \<Rightarrow> ident option" where
  "response_id d name =
    (case o_relationships d of
       None \<Rightarrow> None
     | Some rels \<Rightarrow>
         (case map_of rels name of
            Some (Some rel) \<Rightarrow> data rel
          | _ \<Rightarrow> None))"

definition reconcile_related ::
  "(string \<times> klass) list \<Rightarrow> resobj \<Rightarrow> (string \<times> relval) list \<Rightarrow> (string \<times> relval) list"
where
  "reconcile_related registry d rel =
    fold (\<lambda>(relationship_name, related_instance) r.
            case related_instance of
              RQueryset q \<Rightarrow> r
            | _ \<Rightarrow>
                (let current_id = (case related_instance of
                                     RResource x \<Rightarrow> rid x
                                   | _ \<Rightarrow> None);
                     new_id = (case response_id d relationship_name of
                                 Some i \<Rightarrow> iid i
                               | None \<Rightarrow> None)
                 in if current_id \<noteq> new_id then
                      (case response_id d relationship_name of
                         Some i \<Rightarrow>
                           (if iid i \<noteq> None then
                              AList.update relationship_name
                                (RResource (new_identifier registry i)) r
                            else AList.delete relationship_name r)
                       | None \<Rightarrow> AList.delete relationship_name r)
                    else r))
         rel rel"

definition save ::
  "(string \<times> klass) list \<Rightarrow> server \<Rightarrow> resource \<Rightarrow> string list \<Rightarrow> request list \<Rightarrow>
   (error + resource) \<times> request list"
where
  "save registry srv self field_names log =
    (case (if truthy_id (rid self) then save_existing srv self field_names log
           else save_new srv self log) of
       (Inl e, log') \<Rightarrow> (Inl e, log')
     | (Inr (Single d inc), log') \<Rightarrow>
         (Inr (overwrite registry (klass_of self)
                 ((resobj_kwargs d)
                    \<lparr>kw_related := Some (reconcile_related registry d (related self))\<rparr>)),
          log')
     | (Inr (Collection ds), log') \<Rightarrow>
         (Inl (TypeError ''argument after ** must be a mapping, not list''), log')
     | (Inr Empty, log') \<Rightarrow>
         (Inl (TypeError ''NoneType object is not subscriptable''), log'))"

text \<open>
  What a save payload transmits: its attributes, its relationships, and the names of
  both.
\<close>

definition payload_attributes :: "resobj \<Rightarrow> (string \<times> json) list" where
  "payload_attributes p = (case o_attributes p of None \<Rightarrow> [] | Some m \<Rightarrow> m)"

definition payload_relationships :: "resobj \<Rightarrow> (string \<times> descriptor option) list" where
  "payload_relationships p = (case o_relationships p of None \<Rightarrow> [] | Some m \<Rightarrow> m)"

definition transmitted :: "resobj \<Rightarrow> string list" where
  "transmitted p = map fst (payload_attributes p) @ map fst (payload_relationships p)"

section \<open>Editing a plural relationship\<close>

text \<open>
  \<open>_edit_relationship\<close>: the URL is \<^verbatim>\<open>self.R[field]['links']['self']\<close>, and each step of
  that path can fail before a request is made. The response is not read.
\<close>

definition edit_relationship ::
  "server \<Rightarrow> resource \<Rightarrow> string \<Rightarrow> string \<Rightarrow> body \<Rightarrow> request list \<Rightarrow>
   error option \<times> request list"
where
  "edit_relationship srv self meth field v log =
    (case map_of (relationships self) field of
       None \<Rightarrow> (Some (KeyError field), log)
     | Some None \<Rightarrow> (Some (TypeError ''NoneType object is not subscriptable''), log)
     | Some (Some d) \<Rightarrow>
         (case dlinks d of
            None \<Rightarrow> (Some (KeyError ''links''), log)
          | Some l \<Rightarrow>
              (case map_of l ''self'' of
                 None \<Rightarrow> (Some (KeyError ''self''), log)
               | Some u \<Rightarrow>
                   (case jsonapi_request srv log
                           \<lparr>req_method = meth, url = u, json_body = Some v,
                            params = None, bulk = False\<rparr> of
                      (Inl e, log') \<Rightarrow> (Some e, log')
                    | (Inr doc, log') \<Rightarrow> (None, log')))))"

text \<open>
  The loop of \<open>_edit_plural_relationship\<close>:
  \<^verbatim>\<open>Resource.as_resource(item).as_resource_identifier()\<close> for each item.
\<close>

fun identifiers :: "(string \<times> klass) list \<Rightarrow> pyval list \<Rightarrow> error + ident list" where
  "identifiers registry [] = Inr []"
| "identifiers registry (item # items) =
    (case identifier_of (as_resource registry item) of
       Inl e \<Rightarrow> Inl e
     | Inr i \<Rightarrow>
         (case identifiers registry items of
            Inl e \<Rightarrow> Inl e
          | Inr rest \<Rightarrow> Inr (i # rest)))"

text \<open>
  \<open>_edit_plural_relationship\<close>. The result holds the instance after the call next
  to the exception, if any, and the log.
\<close>

definition edit_plural_relationship ::
  "(string \<times> klass) list \<Rightarrow> server \<Rightarrow> resource \<Rightarrow> string \<Rightarrow> string \<Rightarrow> pyval list \<Rightarrow>
   request list \<Rightarrow> (error option \<times> resource) \<times> request list"
where
  "edit_plural_relationship registry srv self meth field vs log =
    (case identifiers registry vs of
       Inl e \<Rightarrow> ((Some e, self), log)
     | Inr payload \<Rightarrow>
         (case edit_relationship srv self meth field (DataIdentifiers payload) log of
            (e, log') \<Rightarrow> ((e, self), log')))"

definition add ::
  "(string \<times> klass) list \<Rightarrow> server \<Rightarrow> resource \<Rightarrow> string \<Rightarrow> pyval list \<Rightarrow> request list \<Rightarrow>
   (error option \<times> resource) \<times> request list"
where
  "add registry srv self field vs log =
    edit_plural_relationship registry srv self ''post'' field vs log"

definition remove ::
  "(string \<times> klass) list \<Rightarrow> server \<Rightarrow> resource \<Rightarrow> string \<Rightarrow> pyval list \<Rightarrow> request list \<Rightarrow>
   (error option \<times> resource) \<times> request list"
where
  "remove registry srv self field vs log =
    edit_plural_relationship registry srv self ''delete'' field vs log"

definition reset ::
  "(string \<times> klass) list \<Rightarrow> server \<Rightarrow> resource \<Rightarrow> string \<Rightarrow> pyval list \<Rightarrow> request list \<Rightarrow>
   (error option \<times> resource) \<times> request list"
where
  "reset registry srv self field vs log =
    edit_plural_relationship registry srv self ''patch'' field vs log"

section \<open>Attribute access\<close>

text \<open>
  What reading \<open>self.attr\<close> returns: \<open>Ordinary\<close> is whatever ordinary lookup finds
  under a name of the class or of the instance (a method, a property, a class
  constant, an instance field); the other two come from \<open>__getattr__\<close>.
\<close>

datatype looked =
    Ordinary string
  | Attribute_value json
  | Related_value relval

text \<open>\<open>object.__getattribute__\<close>, which the module calls as \<open>super().__getattribute__\<close>.\<close>

definition object_getattribute :: "resource \<Rightarrow> string \<Rightarrow> error + looked" where
  "object_getattribute self attr =
    (if attr \<in> set (c_members (klass_of self)) then Inr (Ordinary attr)
     else Inl (AttributeError attr))"

definition getattr_hook :: "resource \<Rightarrow> string \<Rightarrow> error + looked" where
  "getattr_hook self attr =
    (if attr \<in> set [''a'', ''attributes'', ''R'', ''relationships'', ''r'', ''related'',
                     ''id'', ''links''] then
       object_getattribute self attr
     else
       (case map_of (attributes self) attr of
          Some v \<Rightarrow> Inr (Attribute_value v)
        | None \<Rightarrow>
            (case map_of (related self) attr of
               Some v \<Rightarrow> Inr (Related_value v)
             | None \<Rightarrow> object_getattribute self attr)))"

text \<open>
  The expression \<open>self.attr\<close>: Python calls \<open>__getattr__\<close> only when ordinary lookup
  has raised \<open>AttributeError\<close>.
\<close>

definition getattr :: "resource \<Rightarrow> string \<Rightarrow> error + looked" where
  "getattr self attr =
    (case object_getattribute self attr of
       Inr v \<Rightarrow> Inr v
     | Inl e \<Rightarrow> getattr_hook self attr)"






section \<open>Bulk operations\<close>

text \<open>
  A relationship of an instance as a value: \<open>None\<close>, or a dictionary that has a
  \<^verbatim>\<open>'data'\<close> key or not.
\<close>

definition relationship_value :: "descriptor option \<Rightarrow> pyval" where
  "relationship_value r =
    (case r of
       None \<Rightarrow> VOther JNull
     | Some d \<Rightarrow>
         (case data d of
            Some i \<Rightarrow> VDict (Envelope (no_kwargs\<lparr>kw_id := iid i, kw_type := itype i\<rparr>) None)
          | None \<Rightarrow> VDict (Bare (no_kwargs\<lparr>kw_links := dlinks d\<rparr>))))"

text \<open>
  \<open>_extract_from_item\<close>. A \<open>TypeError\<close> carries the statement that raised it. For
  an item without \<open>get\<close> the three-way unpacking is tried first: a wrong number of
  elements is a \<open>ValueError\<close>, which is caught, and an item that cannot be iterated
  is a \<open>TypeError\<close>, which is not. The two-way unpacking is tried next, and what is
  left ends in the statement \<^verbatim>\<open>relationships, id = None\<close>.
\<close>

definition extract_from_item :: "item \<Rightarrow> error + (bulkval \<times> bulkval \<times> bulkval)" where
  "extract_from_item it =
    (case it of
       ItemResource x \<Rightarrow>
         Inr (BDict (map (\<lambda>(k, v). (k, VOther v)) (attributes x)),
              BDict (map (\<lambda>(k, r). (k, relationship_value r)) (relationships x)),
              (case rid x of None \<Rightarrow> BNone | Some s \<Rightarrow> BStr s))
     | ItemMapping a r i \<Rightarrow> Inr (a, r, i)
     | ItemSequence es \<Rightarrow>
         (case es of
            [a, r, i] \<Rightarrow> Inr (a, r, i)
          | [a, r] \<Rightarrow> Inr (a, r, BNone)
          | _ \<Rightarrow> Inl (TypeError ''relationships, id = None''))
     | ItemScalar j \<Rightarrow> Inl (TypeError ''attributes, relationships, id = item''))"

text \<open>
  \<^verbatim>\<open>{key: Resource.as_resource(value).as_relationship() for key, value in
  relationships.items()}\<close>.
\<close>

fun relationship_entries ::
  "(string \<times> klass) list \<Rightarrow> (string \<times> pyval) list \<Rightarrow> (string \<times> descriptor) list \<Rightarrow>
   error + (string \<times> descriptor) list"
where
  "relationship_entries registry [] acc = Inr acc"
| "relationship_entries registry ((key, v) # rest) acc =
    (case as_resource registry v of
       VResource y \<Rightarrow>
         relationship_entries registry rest (AList.update key (as_relationship y) acc)
     | _ \<Rightarrow> Inl (AttributeError ''as_relationship''))"

definition encode_relationships ::
  "(string \<times> klass) list \<Rightarrow> bulkval \<Rightarrow> error + (string \<times> descriptor) list"
where
  "encode_relationships registry r =
    (case r of
       BDict d \<Rightarrow> relationship_entries registry d []
     | _ \<Rightarrow> Inl (AttributeError ''items''))"

text \<open>The body of the loop of \<open>bulk_create\<close>.\<close>

definition create_entry :: "(string \<times> klass) list \<Rightarrow> klass \<Rightarrow> item \<Rightarrow> error + bulk_entry" where
  "create_entry registry k it =
    (case extract_from_item it of
       Inl e \<Rightarrow> Inl e
     | Inr (a, r, i) \<Rightarrow>
         (if i \<noteq> BNone then Inl (ValueError ''id supplied as part of a new instance'')
          else
            (let entry = \<lparr>e_type = c_TYPE k, e_id = BNone,
                           e_attributes = (if a \<noteq> BNone then Some a else None),
                           e_relationships = None\<rparr>
             in if r \<noteq> BNone then
                  (case encode_relationships registry r of
                     Inl e \<Rightarrow> Inl e
                   | Inr m \<Rightarrow> Inr (entry\<lparr>e_relationships := Some m\<rparr>))
                else Inr entry)))"

text \<open>A loop that appends one entry per item and ends at the first exception.\<close>

fun entries :: "(item \<Rightarrow> error + bulk_entry) \<Rightarrow> item list \<Rightarrow> error + bulk_entry list" where
  "entries f [] = Inr []"
| "entries f (it # its) =
    (case f it of
       Inl e \<Rightarrow> Inl e
     | Inr entry \<Rightarrow>
         (case entries f its of
            Inl e \<Rightarrow> Inl e
          | Inr rest \<Rightarrow> Inr (entry # rest)))"

definition bulk_create ::
  "(string \<times> klass) list \<Rightarrow> server \<Rightarrow> klass \<Rightarrow> item list \<Rightarrow> request list \<Rightarrow>
   (error + queryset) \<times> request list"
where
  "bulk_create registry srv k its log =
    (case entries (create_entry registry k) its of
       Inl e \<Rightarrow> (Inl e, log)
     | Inr payload \<Rightarrow>
         (case jsonapi_request srv log
                 \<lparr>req_method = ''post'', url = ''/'' @ py_str (c_TYPE k),
                  json_body = Some (DataBulk payload), params = None, bulk = True\<rparr> of
            (Inl e, log') \<Rightarrow> (Inl e, log')
          | (Inr response_body, log') \<Rightarrow> (Inr (from_data response_body), log')))"

text \<open>
  Python's truth value of a component, and the filter by \<open>key in fields\<close>, which is
  applied \<^verbatim>\<open>if fields:\<close> to a component that is not \<open>None\<close>.
\<close>

definition truthy :: "bulkval \<Rightarrow> bool" where
  "truthy v = (case v of BNone \<Rightarrow> False | BStr s \<Rightarrow> s \<noteq> [] | BDict d \<Rightarrow> d \<noteq> [])"

definition restrict_to :: "string list option \<Rightarrow> bulkval \<Rightarrow> error + bulkval" where
  "restrict_to fs v =
    (case fs of
       None \<Rightarrow> Inr v
     | Some names \<Rightarrow>
         (if names = [] then Inr v
          else
            (case v of
               BNone \<Rightarrow> Inr BNone
             | BStr s \<Rightarrow> Inl (AttributeError ''items'')
             | BDict d \<Rightarrow> Inr (BDict (filter (\<lambda>(key, value). key \<in> set names) d)))))"

text \<open>
  The body of the loop of \<open>bulk_update\<close>; \<open>fs\<close> is \<open>fields\<close> after
  \<^verbatim>\<open>if fields is None: fields = cls.EDITABLE\<close>.
\<close>

definition update_entry ::
  "(string \<times> klass) list \<Rightarrow> klass \<Rightarrow> string list option \<Rightarrow> item \<Rightarrow> error + bulk_entry"
where
  "update_entry registry k fs it =
    (case extract_from_item it of
       Inl e \<Rightarrow> Inl e
     | Inr (a, r, i) \<Rightarrow>
         (if i = BNone then
            Inl (ValueError ''id not supplied as part of an update operation'')
          else
            (case restrict_to fs a of
               Inl e \<Rightarrow> Inl e
             | Inr a' \<Rightarrow>
                 (case restrict_to fs r of
                    Inl e \<Rightarrow> Inl e
                  | Inr r' \<Rightarrow>
                      (let entry = \<lparr>e_type = c_TYPE k, e_id = i,
                                     e_attributes = (if truthy a' then Some a' else None),
                                     e_relationships = None\<rparr>
                       in if truthy r' then
                            (case encode_relationships registry r' of
                               Inl e \<Rightarrow> Inl e
                             | Inr m \<Rightarrow> Inr (entry\<lparr>e_relationships := Some m\<rparr>))
                          else Inr entry)))))"

definition bulk_update ::
  "(string \<times> klass) list \<Rightarrow> server \<Rightarrow> klass \<Rightarrow> item list \<Rightarrow> string list option \<Rightarrow>
   request list \<Rightarrow> (error + queryset) \<times> request list"
where
  "bulk_update registry srv k its field_names log =
    (let fs = (if field_names = None then c_EDITABLE k else field_names)
     in case entries (update_entry registry k fs) its of
          Inl e \<Rightarrow> (Inl e, log)
        | Inr payload \<Rightarrow>
            (case jsonapi_request srv log
                    \<lparr>req_method = ''patch'', url = ''/'' @ py_str (c_TYPE k),
                     json_body = Some (DataBulk payload), params = None, bulk = True\<rparr> of
               (Inl e, log') \<Rightarrow> (Inl e, log')
             | (Inr response_body, log') \<Rightarrow> (Inr (from_data response_body), log')))"

section \<open>The classes and payloads of the tests\<close>

text \<open>
  \<^verbatim>\<open>tests/test_relationships.py\<close> declares two classes and builds a child whose parent
  is a singular relationship and a parent whose children are a plural one.
\<close>

definition Child :: klass where
  "Child = \<lparr>c_name = ''Child'', c_TYPE = Some ''children'', c_EDITABLE = None,
     c_members = Resource_members\<rparr>"

definition Parent :: klass where
  "Parent = \<lparr>c_name = ''Parent'', c_TYPE = Some ''parents'', c_EDITABLE = None,
     c_members = Resource_members\<rparr>"

definition test_registry :: "(string \<times> klass) list" where
  "test_registry = register (register [] Child) Parent"

definition child_payload :: resobj where
  "child_payload =
    \<lparr>o_type = Some ''children'', o_id = Some ''1'',
     o_attributes = Some [(''name'', JStr ''child 1'')],
     o_relationships = Some [(''parent'',
        Some \<lparr>data = Some \<lparr>itype = Some ''parents'', iid = Some ''1''\<rparr>,
              dlinks = Some [(''self'', ''/children/1/relationships/parent''),
                             (''related'', ''/parents/1'')]\<rparr>)],
     o_links = None\<rparr>"

definition parent_payload :: resobj where
  "parent_payload =
    \<lparr>o_type = Some ''parents'', o_id = Some ''1'',
     o_attributes = Some [(''name'', JStr ''parent 1'')],
     o_relationships = Some [(''children'',
        Some \<lparr>data = None,
              dlinks = Some [(''self'', ''/parents/1/relationships/children''),
                             (''related'', ''/parents/1/children'')]\<rparr>)],
     o_links = None\<rparr>"

text \<open>\<open>Child(child_payloads[1])\<close> and \<open>Parent(parent_payloads[1])\<close>.\<close>

definition child_1 :: resource where
  "child_1 = overwrite test_registry Child (resobj_kwargs child_payload)"

definition parent_1 :: resource where
  "parent_1 = overwrite test_registry Parent (resobj_kwargs parent_payload)"

text \<open>A server that answers every request with an empty body.\<close>

definition quiet_server :: server where
  "quiet_server log req = Inr Empty"

section \<open>Construction: the calls inside \<open>_overwrite\<close>\<close>

lemma overwrite_plain:
  "kw_included kw = None \<Longrightarrow> kw_related kw = None \<Longrightarrow>
   overwrite registry k kw = overwrite_fields registry k kw"
  by (simp add: overwrite_def overwrite_fields_def Let_def)

lemma new_of_relationship:
  "new registry (Some (Envelope \<lparr>kw_id = iid i, kw_attributes = None,
       kw_relationships = None, kw_links = None, kw_related = None, kw_included = None,
       kw_type = itype i\<rparr> inc)) t kw
   = Inr (new_identifier registry i)"
  by (simp add: new_def new_kw_def init_def overwrite_def overwrite_fields_def
      related_of_def new_identifier_def Let_def)

lemma new_of_included:
  "new registry (Some (Bare (resobj_kwargs item))) t kw = Inr (new_included registry item)"
  by (simp add: new_def new_kw_def init_def new_included_def overwrite_plain
      resobj_kwargs_def overwrite_fields_def)

section \<open>Included objects\<close>

text \<open>
  What \<open>_overwrite\<close> puts into \<open>related\<close>: the relationships it has just stored
  have distinct names, so each name is decided by its own relationship.
\<close>

lemma related_of_lookup:
  "distinct (map fst R) \<Longrightarrow>
   map_of (fold (\<lambda>(relationship_name, relationship) r.
            case relationship of
              None \<Rightarrow> AList.update relationship_name RNone r
            | Some d \<Rightarrow>
                (case data d of
                   Some i \<Rightarrow> AList.update relationship_name
                               (RResource (new_identifier registry i)) r
                 | None \<Rightarrow> r)) R r0) n =
   (case map_of R n of
      None \<Rightarrow> map_of r0 n
    | Some None \<Rightarrow> Some RNone
    | Some (Some d) \<Rightarrow>
        (case data d of
           Some i \<Rightarrow> Some (RResource (new_identifier registry i))
         | None \<Rightarrow> map_of r0 n))"
proof (induction R arbitrary: r0)
  case Nil
  then show ?case by simp
next
  case (Cons p R)
  obtain k v where p: "p = (k, v)" by (cases p)
  from Cons.prems p have d: "distinct (map fst R)" and k: "k \<notin> fst ` set R" by auto
  from k have none: "map_of R k = None" by (simp add: map_of_eq_None_iff)
  show ?case
    using Cons.IH [OF d] none
    by (auto simp add: p update_conv' split: option.splits)
qed

lemma included_lookup:
  "distinct (map fst R) \<Longrightarrow>
   map_of (fold (\<lambda>(relationship_name, relationship) r.
               case relationship of
                 None \<Rightarrow> r
               | Some d \<Rightarrow>
                   (case data d of
                      None \<Rightarrow> r
                    | Some i \<Rightarrow>
                        (case map_of included (itype i, iid i) of
                           Some item \<Rightarrow> AList.update relationship_name
                                          (RResource (new_included registry item)) r
                         | None \<Rightarrow> r))) R r0) n =
   (case map_of R n of
      Some (Some d) \<Rightarrow>
        (case data d of
           Some i \<Rightarrow>
             (case map_of included (itype i, iid i) of
                Some item \<Rightarrow> Some (RResource (new_included registry item))
              | None \<Rightarrow> map_of r0 n)
         | None \<Rightarrow> map_of r0 n)
    | _ \<Rightarrow> map_of r0 n)"
proof (induction R arbitrary: r0)
  case Nil
  then show ?case by simp
next
  case (Cons p R)
  obtain k v where p: "p = (k, v)" by (cases p)
  from Cons.prems p have d: "distinct (map fst R)" and k: "k \<notin> fst ` set R" by auto
  from k have none: "map_of R k = None" by (simp add: map_of_eq_None_iff)
  show ?case
    using Cons.IH [OF d] none
    by (auto simp add: p update_conv' split: option.splits)
qed

lemma fold_update_distinct:
  "distinct (map fst acc) \<Longrightarrow>
   distinct (map fst (fold (\<lambda>(key, v) R. AList.update key (f v) R) rels acc))"
  by (induction rels arbitrary: acc) (auto simp add: distinct_update)

lemma relationships_distinct:
  "distinct (map fst (relationships (overwrite_fields registry k kw)))"
  by (simp add: overwrite_fields_def Let_def fold_update_distinct split: option.splits)

lemma overwrite_relationships:
  "relationships (overwrite registry k kw) = relationships (overwrite_fields registry k kw)"
  by (simp add: overwrite_def Let_def)

lemma related_decoded:
  "map_of (related (overwrite_fields registry k kw)) n =
   (case map_of (relationships (overwrite_fields registry k kw)) n of
      None \<Rightarrow> None
    | Some None \<Rightarrow> Some RNone
    | Some (Some d) \<Rightarrow>
        (case data d of
           Some i \<Rightarrow> Some (RResource (new_identifier registry i))
         | None \<Rightarrow> None))"
proof -
  have "related (overwrite_fields registry k kw) =
        related_of registry (relationships (overwrite_fields registry k kw))"
    by (simp add: overwrite_fields_def Let_def)
  then show ?thesis
    using related_of_lookup [where R = "relationships (overwrite_fields registry k kw)"
        and registry = registry and ?r0.0 = "[]" and n = n]
      relationships_distinct [of registry k kw]
    by (simp add: related_of_def split: option.splits)
qed

lemma overwrite_included:
  assumes inc: "kw_included kw = Some items" and rel: "kw_related kw = None"
    and R: "map_of (relationships (overwrite registry k kw)) n = Some (Some d)"
    and d: "data d = Some i"
    and hit: "map_of (included_index items) (itype i, iid i) = Some item"
  shows "map_of (related (overwrite registry k kw)) n = Some (RResource (new_included registry item))"
proof -
  have "related (overwrite registry k kw) =
        resolve_included registry items (relationships (overwrite_fields registry k kw))
          (related (overwrite_fields registry k kw))"
    using inc rel by (simp add: overwrite_def Let_def)
  then show ?thesis
    using included_lookup [where R = "relationships (overwrite_fields registry k kw)"
        and included = "included_index items" and registry = registry
        and ?r0.0 = "related (overwrite_fields registry k kw)" and n = n]
      relationships_distinct [of registry k kw] R d hit
    by (simp add: resolve_included_def Let_def overwrite_relationships)
qed

lemma reload_resolves_included:
  assumes answer: "srv log (reload_request x include) = Inr (Single d (Some items))"
  shows "\<exists>x'. reload registry srv x include log = (Inr x', log @ [reload_request x include])
     \<and> (\<forall>n rel i item.
          map_of (relationships x') n = Some (Some rel) \<and> data rel = Some i \<and>
          map_of (included_index items) (itype i, iid i) = Some item \<longrightarrow>
          map_of (related x') n = Some (RResource (new_included registry item)))"
proof -
  let ?kw = "(resobj_kwargs d)\<lparr>kw_included := Some items\<rparr>"
  have r: "reload registry srv x include log =
        (Inr (overwrite registry (klass_of x) ?kw), log @ [reload_request x include])"
    using answer by (simp add: reload_def jsonapi_request_def)
  have "kw_included ?kw = Some items" "kw_related ?kw = None"
    by (simp_all add: resobj_kwargs_def)
  then show ?thesis
    using r overwrite_included [of ?kw items registry "klass_of x"] by blast
qed

text \<open>
  C1. A child is constructed from the envelope \<^verbatim>\<open>{'data': child, 'included': [parent]}\<close>,
  where the included parent has the type and id of the child's \<open>parent\<close> relationship
  and carries the attribute \<open>name\<close>. The constructor keeps \<^verbatim>\<open>data['data']\<close> and drops
  the sibling list: the related entry is the instance built from the identifier
  alone, with no attributes, and not the one built from the included object.
  \<open>reload\<close>, in \<open>reload_resolves_included\<close> above, passes the list on.
\<close>

theorem init_drops_included:
  "init test_registry Child
     (Some (Envelope (resobj_kwargs child_payload) (Some [parent_payload]))) no_kwargs =
   Inr (Resource Child (Some ''1'') [(''name'', JStr ''child 1'')]
          [(''parent'',
            Some \<lparr>data = Some \<lparr>itype = Some ''parents'', iid = Some ''1''\<rparr>,
                  dlinks = Some [(''self'', ''/children/1/relationships/parent''),
                                 (''related'', ''/parents/1'')]\<rparr>)]
          []
          [(''parent'', RResource (Resource Parent (Some ''1'') [] [] [] []))])
   \<and> new_included test_registry parent_payload \<noteq> Resource Parent (Some ''1'') [] [] [] []"
  by (simp add: init_def no_kwargs_def overwrite_def overwrite_fields_def resobj_kwargs_def
      child_payload_def parent_payload_def related_of_def new_identifier_def new_included_def
      registry_get_def test_registry_def register_def Child_def Parent_def
      encode_relationship_def Let_def)

section \<open>Equality\<close>

text \<open>
  C2. For two instances \<open>x\<close> and \<open>y\<close>, \<open>x == y\<close> returns a value, and that value is
  true exactly when their classes have the same \<open>TYPE\<close> and their ids are equal; the
  attributes, relationships, related cache and links of neither instance are read.
\<close>

theorem eq_iff_type_and_id:
  "eq registry x (VResource y) =
     Inr (c_TYPE (klass_of x) = c_TYPE (klass_of y) \<and> rid x = rid y)"
  by (auto simp add: eq_def as_resource_def identifier_of_def as_resource_identifier_def)

section \<open>The test instances, evaluated\<close>

lemma test_registry_eval: "test_registry = [(''children'', Child), (''parents'', Parent)]"
  by (simp add: test_registry_def register_def Child_def Parent_def)

lemma test_registry_get:
  "registry_get test_registry (Some ''children'') = Child"
  "registry_get test_registry (Some ''parents'') = Parent"
  by (simp_all add: registry_get_def test_registry_eval)

lemma child_1_eval:
  "child_1 =
    Resource Child (Some ''1'') [(''name'', JStr ''child 1'')]
      [(''parent'',
        Some \<lparr>data = Some \<lparr>itype = Some ''parents'', iid = Some ''1''\<rparr>,
              dlinks = Some [(''self'', ''/children/1/relationships/parent''),
                             (''related'', ''/parents/1'')]\<rparr>)]
      []
      [(''parent'', RResource (Resource Parent (Some ''1'') [] [] [] []))]"
  by (simp add: child_1_def overwrite_def overwrite_fields_def resobj_kwargs_def
      child_payload_def related_of_def new_identifier_def test_registry_get
      encode_relationship_def Let_def)

lemma parent_1_eval:
  "parent_1 =
    Resource Parent (Some ''1'') [(''name'', JStr ''parent 1'')]
      [(''children'',
        Some \<lparr>data = None,
              dlinks = Some [(''self'', ''/parents/1/relationships/children''),
                             (''related'', ''/parents/1/children'')]\<rparr>)]
      [] []"
  by (simp add: parent_1_def overwrite_def overwrite_fields_def resobj_kwargs_def
      parent_payload_def related_of_def encode_relationship_def Let_def)

lemma class_types:
  "c_TYPE Child = Some ''children''" "c_TYPE Parent = Some ''parents''"
  "c_TYPE Resource_class = None"
  by (simp_all add: Child_def Parent_def Resource_class_def)

section \<open>Fetching a relationship\<close>

text \<open>
  C3, as amended. Let \<open>n\<close> be a name of the relationships of an instance and call
  the relationship resolved when the cache holds under \<open>n\<close> an instance with
  attributes or relationships, or a Queryset. \<open>fetch(n)\<close> changes nothing and issues
  no request when the relationship is \<open>None\<close>, and when it is resolved and \<open>force\<close> is
  off. Otherwise, for a singular relationship whose cache entry is an instance, it
  issues exactly one request, the reload of that instance; for a plural relationship
  with a \<open>related\<close> link it issues no request and puts a new, unfetched Queryset
  anchored at that link into the cache, replacing what was there.
\<close>

theorem fetch_request_count:
  "(map_of (relationships x) n = Some None \<longrightarrow>
      fetch registry srv x [n] force log = ((None, x), log))
   \<and> (\<forall>d. map_of (relationships x) n = Some (Some d) \<longrightarrow>
        ((is_singular_fetched (map_of (related x) n) \<or> is_plural_fetched (map_of (related x) n))
            \<and> \<not> force \<longrightarrow>
          fetch registry srv x [n] force log = ((None, x), log))
        \<and> (\<not> ((is_singular_fetched (map_of (related x) n)
                \<or> is_plural_fetched (map_of (related x) n)) \<and> \<not> force) \<longrightarrow>
            (\<forall>y. data d \<noteq> None \<and> map_of (related x) n = Some (RResource y) \<longrightarrow>
               snd (fetch registry srv x [n] force log) = log @ [reload_request y None])
            \<and> (\<forall>l u. data d = None \<and> dlinks d = Some l \<and> map_of l ''related'' = Some u \<longrightarrow>
               fetch registry srv x [n] force log =
                 ((None, set_related x n (RQueryset (Queryset u))), log))))"
  by (auto simp add: fetch_one_def reload_def jsonapi_request_def Let_def
      split: sum.splits document.splits prod.splits)

text \<open>
  The four cases at the test instances: a null relationship with \<open>force\<close>; a plural
  relationship whose cache holds a Queryset, without \<open>force\<close>; the child's unresolved
  parent; the same plural relationship with \<open>force\<close>.
\<close>

theorem fetch_request_count_witness:
  "fetch test_registry quiet_server
     (Resource Child (Some ''1'') [] [(''parent'', None)] [] [(''parent'', RNone)])
     [''parent''] True [] =
     ((None, Resource Child (Some ''1'') [] [(''parent'', None)] [] [(''parent'', RNone)]), [])
   \<and> fetch test_registry quiet_server
       (set_related parent_1 ''children'' (RQueryset (from_data (Collection []))))
       [''children''] False [] =
     ((None, set_related parent_1 ''children'' (RQueryset (from_data (Collection [])))), [])
   \<and> snd (fetch test_registry quiet_server child_1 [''parent''] False []) =
     [\<lparr>req_method = ''get'', url = ''/parents/1'', json_body = None, params = None,
       bulk = False\<rparr>]
   \<and> fetch test_registry quiet_server
       (set_related parent_1 ''children'' (RQueryset (from_data (Collection []))))
       [''children''] True [] =
     ((None, set_related parent_1 ''children'' (RQueryset (Queryset ''/parents/1/children''))),
      [])"
proof -
  let ?null = "Resource Child (Some ''1'') [] [(''parent'', None)] [] [(''parent'', RNone)]"
  let ?fetched = "set_related parent_1 ''children'' (RQueryset (from_data (Collection [])))"
  have a: "fetch test_registry quiet_server ?null [''parent''] True [] = ((None, ?null), [])"
    using fetch_request_count [of ?null "''parent''" test_registry quiet_server True "[]"]
    by simp
  have b: "fetch test_registry quiet_server ?fetched [''children''] False [] =
      ((None, ?fetched), [])"
    using fetch_request_count [of ?fetched "''children''" test_registry quiet_server False "[]"]
    by (simp add: parent_1_eval set_related_def is_plural_fetched_def)
  have c: "snd (fetch test_registry quiet_server child_1 [''parent''] False []) =
      [reload_request (Resource Parent (Some ''1'') [] [] [] []) None]"
    using fetch_request_count [of child_1 "''parent''" test_registry quiet_server False "[]"]
    by (simp add: child_1_eval is_singular_fetched_def is_plural_fetched_def)
  have d: "fetch test_registry quiet_server ?fetched [''children''] True [] =
      ((None, set_related ?fetched ''children'' (RQueryset (Queryset ''/parents/1/children''))),
       [])"
    using fetch_request_count [of ?fetched "''children''" test_registry quiet_server True "[]"]
    by (simp add: parent_1_eval set_related_def)
  show ?thesis
    using a b c d
    by (simp add: reload_request_def get_url_def class_types py_str_def set_related_def
        parent_1_eval)
qed

text \<open>
  The claim as stated fails for a plural relationship: the parent of the tests has
  an unresolved \<open>children\<close> relationship, and \<open>fetch('children')\<close> stores an unfetched
  Queryset and leaves the log empty.
\<close>

theorem fetch_plural_counterexample:
  "map_of (relationships parent_1) ''children'' =
     Some (Some \<lparr>data = None,
                 dlinks = Some [(''self'', ''/parents/1/relationships/children''),
                                (''related'', ''/parents/1/children'')]\<rparr>)
   \<and> \<not> is_plural_fetched (map_of (related parent_1) ''children'')
   \<and> \<not> is_singular_fetched (map_of (related parent_1) ''children'')
   \<and> fetch test_registry quiet_server parent_1 [''children''] False [] =
       ((None, set_related parent_1 ''children'' (RQueryset (Queryset ''/parents/1/children''))),
        [])"
  by (simp add: parent_1_eval fetch_one_def is_plural_fetched_def is_singular_fetched_def
      Let_def)

section \<open>Saving an existing instance\<close>

lemma put_field_attributes:
  "payload_attributes (put_field x f p) =
     (case map_of (attributes x) f of
        Some v \<Rightarrow> AList.update f v (payload_attributes p)
      | None \<Rightarrow> payload_attributes p)"
  by (simp add: put_field_def payload_attributes_def setdefault_put_def split: option.splits)

lemma put_field_relationships:
  "payload_relationships (put_field x f p) =
     (case map_of (attributes x) f of
        Some v \<Rightarrow> payload_relationships p
      | None \<Rightarrow>
          (case map_of (relationships x) f of
             Some d \<Rightarrow> AList.update f d (payload_relationships p)
           | None \<Rightarrow> payload_relationships p))"
  by (simp add: put_field_def payload_relationships_def setdefault_put_def split: option.splits)

lemma fold_put_field_attributes:
  "map_of (payload_attributes (fold (put_field x) fs p)) f =
     (if f \<in> set fs \<and> map_of (attributes x) f \<noteq> None then map_of (attributes x) f
      else map_of (payload_attributes p) f)"
  by (induction fs arbitrary: p)
     (auto simp add: put_field_attributes update_conv' split: option.splits)

lemma fold_put_field_relationships:
  "map_of (payload_relationships (fold (put_field x) fs p)) f =
     (if f \<in> set fs \<and> map_of (attributes x) f = None \<and> map_of (relationships x) f \<noteq> None
      then map_of (relationships x) f
      else map_of (payload_relationships p) f)"
  by (induction fs arbitrary: p)
     (auto simp add: put_field_relationships update_conv' split: option.splits)

lemma fold_put_field_ident:
  "o_type (fold (put_field x) fs p) = o_type p \<and> o_id (fold (put_field x) fs p) = o_id p"
  by (induction fs arbitrary: p) (auto simp add: put_field_def split: option.splits)

lemma save_existing_log:
  "truthy_id (rid x) \<Longrightarrow>
   snd (save registry srv x field_names log) =
     log @ [\<lparr>req_method = ''patch'', url = get_url x,
              json_body = Some (DataObject (save_existing_payload x field_names)),
              params = None, bulk = False\<rparr>]"
  by (simp add: save_def save_existing_def jsonapi_request_def
      split: sum.splits document.splits)

lemma transmitted_names:
  "set (transmitted p) = dom (map_of (payload_attributes p)) \<union> dom (map_of (payload_relationships p))"
  by (simp add: transmitted_def dom_map_of_conv_image_fst)

text \<open>
  C4, as amended. For an instance whose id is neither \<open>None\<close> nor empty, \<open>save\<close>
  issues one \<open>PATCH\<close> request to the instance's URL, whatever the server answers. The
  payload carries the type and the id. The list of names is the explicit one if any
  name is given, else the class's \<open>EDITABLE\<close> if it is set; of that list the payload
  transmits the names that are attributes of the instance, with their values, and
  the names that are not attributes and are relationships, with their relationships,
  and nothing else. With neither list the payload carries all attributes and all
  relationships.
\<close>

theorem save_transmits:
  assumes "truthy_id (rid x)"
  shows
    "snd (save registry srv x field_names log) =
       log @ [\<lparr>req_method = ''patch'', url = get_url x,
                json_body = Some (DataObject (save_existing_payload x field_names)),
                params = None, bulk = False\<rparr>]
     \<and> o_type (save_existing_payload x field_names) = c_TYPE (klass_of x)
     \<and> o_id (save_existing_payload x field_names) = rid x
     \<and> (case (if field_names \<noteq> [] then Some field_names else c_EDITABLE (klass_of x)) of
          Some fs \<Rightarrow>
            set (transmitted (save_existing_payload x field_names)) =
              {f \<in> set fs. map_of (attributes x) f \<noteq> None \<or> map_of (relationships x) f \<noteq> None}
            \<and> (\<forall>f. map_of (payload_attributes (save_existing_payload x field_names)) f =
                      (if f \<in> set fs then map_of (attributes x) f else None)
                   \<and> map_of (payload_relationships (save_existing_payload x field_names)) f =
                      (if f \<in> set fs \<and> map_of (attributes x) f = None
                       then map_of (relationships x) f else None))
        | None \<Rightarrow>
            payload_attributes (save_existing_payload x field_names) = attributes x
            \<and> payload_relationships (save_existing_payload x field_names) = relationships x)"
proof -
  let ?p = "save_existing_payload x field_names"
  let ?base = "\<lparr>o_type = itype (as_resource_identifier x),
                 o_id = iid (as_resource_identifier x),
                 o_attributes = None, o_relationships = None, o_links = None\<rparr>"
  have ident: "o_type ?p = c_TYPE (klass_of x) \<and> o_id ?p = rid x"
    using fold_put_field_ident [of x _ ?base]
    by (simp add: save_existing_payload_def Let_def as_resource_identifier_def
        split: option.splits)
  have chosen: "editable_fields x field_names =
      (if field_names \<noteq> [] then Some field_names else c_EDITABLE (klass_of x))"
    by (simp add: editable_fields_def)
  have body: "case editable_fields x field_names of
          Some fs \<Rightarrow>
            set (transmitted ?p) =
              {f \<in> set fs. map_of (attributes x) f \<noteq> None \<or> map_of (relationships x) f \<noteq> None}
            \<and> (\<forall>f. map_of (payload_attributes ?p) f =
                      (if f \<in> set fs then map_of (attributes x) f else None)
                   \<and> map_of (payload_relationships ?p) f =
                      (if f \<in> set fs \<and> map_of (attributes x) f = None
                       then map_of (relationships x) f else None))
        | None \<Rightarrow> payload_attributes ?p = attributes x \<and> payload_relationships ?p = relationships x"
  proof (cases "editable_fields x field_names")
    case None
    then show ?thesis
      by (simp add: save_existing_payload_def Let_def payload_attributes_def
          payload_relationships_def)
  next
    case (Some fs)
    have p: "?p = fold (put_field x) fs ?base"
      using Some by (simp add: save_existing_payload_def Let_def)
    have a: "map_of (payload_attributes ?p) f =
               (if f \<in> set fs then map_of (attributes x) f else None)" for f
      unfolding p using fold_put_field_attributes [of x fs ?base f]
      by (auto simp add: payload_attributes_def)
    have r: "map_of (payload_relationships ?p) f =
               (if f \<in> set fs \<and> map_of (attributes x) f = None
                then map_of (relationships x) f else None)" for f
      unfolding p using fold_put_field_relationships [of x fs ?base f]
      by (auto simp add: payload_relationships_def)
    have "set (transmitted ?p) =
              {f \<in> set fs. map_of (attributes x) f \<noteq> None \<or> map_of (relationships x) f \<noteq> None}"
      unfolding transmitted_names using a r by (auto simp add: dom_def)
    then show ?thesis using Some a r by simp
  qed
  show ?thesis
    using save_existing_log [OF assms] ident body chosen by simp
qed

text \<open>
  \<open>save('name')\<close> on the child of the tests, which also has a \<open>parent\<close> relationship.
\<close>

theorem save_transmits_witness:
  "truthy_id (rid child_1)
   \<and> snd (save test_registry quiet_server child_1 [''name''] []) =
       [\<lparr>req_method = ''patch'', url = ''/children/1'',
         json_body = Some (DataObject
           \<lparr>o_type = Some ''children'', o_id = Some ''1'',
            o_attributes = Some [(''name'', JStr ''child 1'')],
            o_relationships = None, o_links = None\<rparr>),
         params = None, bulk = False\<rparr>]
   \<and> set (transmitted (save_existing_payload child_1 [''name''])) = {''name''}"
proof -
  have t: "truthy_id (rid child_1)"
    by (simp add: child_1_eval truthy_id_def)
  have p: "save_existing_payload child_1 [''name''] =
      \<lparr>o_type = Some ''children'', o_id = Some ''1'',
       o_attributes = Some [(''name'', JStr ''child 1'')],
       o_relationships = None, o_links = None\<rparr>"
    by (simp add: child_1_eval save_existing_payload_def editable_fields_def put_field_def
        setdefault_put_def as_resource_identifier_def class_types Let_def)
  show ?thesis
    using save_transmits [OF t, of test_registry quiet_server "[''name'']" "[]"] t
    by (simp add: p) (simp add: child_1_eval get_url_def class_types py_str_def)
qed

text \<open>
  The claim as stated fails when a listed name is not set on the instance:
  \<open>save('age')\<close> on the same child transmits no field at all, not the field \<open>age\<close>.
\<close>

theorem save_unset_field_counterexample:
  "truthy_id (rid child_1)
   \<and> snd (save test_registry quiet_server child_1 [''age''] []) =
       [\<lparr>req_method = ''patch'', url = ''/children/1'',
         json_body = Some (DataObject
           \<lparr>o_type = Some ''children'', o_id = Some ''1'',
            o_attributes = None, o_relationships = None, o_links = None\<rparr>),
         params = None, bulk = False\<rparr>]
   \<and> transmitted (save_existing_payload child_1 [''age'']) = []"
  by (simp add: child_1_eval truthy_id_def save_def save_existing_def jsonapi_request_def
      quiet_server_def save_existing_payload_def editable_fields_def put_field_def
      as_resource_identifier_def class_types get_url_def py_str_def transmitted_def
      payload_attributes_def payload_relationships_def Let_def)

section \<open>Attribute assignment\<close>




section \<open>Attribute reads\<close>

lemma children_not_member: "''children'' \<notin> set Resource_members"
  by (simp add: Resource_members_def)

lemma parent_not_member: "''parent'' \<notin> set Resource_members"
  by (simp add: Resource_members_def)

lemma class_members:
  "c_members Child = Resource_members" "c_members Parent = Resource_members"
  by (simp_all add: Child_def Parent_def)

text \<open>
  C6, as amended. Let a name be one that ordinary lookup does not find on the
  instance, none of the names \<open>__getattr__\<close> passes on, and no key of the attributes.
  Reading it returns the entry of the related cache under that name when there is
  one, and raises \<open>AttributeError\<close> when there is none. On an instance as
  \<open>_overwrite\<close> builds it from its arguments, the cache has \<open>None\<close> for a null
  relationship and an instance built from the identifier for a singular one, and no
  entry for a plural one: reading a plural relationship that was not fetched raises
  \<open>AttributeError\<close>.
\<close>

theorem getattr_related:
  assumes "n \<notin> set (c_members (klass_of x))"
    and "n \<notin> set [''a'', ''attributes'', ''R'', ''relationships'', ''r'', ''related'', ''id'', ''links'']"
    and "map_of (attributes x) n = None"
  shows
    "(\<forall>v. map_of (related x) n = Some v \<longrightarrow> getattr x n = Inr (Related_value v))
     \<and> (map_of (related x) n = None \<longrightarrow> getattr x n = Inl (AttributeError n))
     \<and> (\<forall>registry k kw. x = overwrite_fields registry k kw \<longrightarrow>
          getattr x n =
            (case map_of (relationships x) n of
               None \<Rightarrow> Inl (AttributeError n)
             | Some None \<Rightarrow> Inr (Related_value RNone)
             | Some (Some d) \<Rightarrow>
                 (case data d of
                    Some i \<Rightarrow> Inr (Related_value (RResource (new_identifier registry i)))
                  | None \<Rightarrow> Inl (AttributeError n))))"
proof -
  have hook: "getattr x n =
      (case map_of (related x) n of
         Some v \<Rightarrow> Inr (Related_value v)
       | None \<Rightarrow> Inl (AttributeError n))"
    using assms
    by (simp add: getattr_def getattr_hook_def object_getattribute_def split: option.splits)
  have "getattr x n =
            (case map_of (relationships x) n of
               None \<Rightarrow> Inl (AttributeError n)
             | Some None \<Rightarrow> Inr (Related_value RNone)
             | Some (Some d) \<Rightarrow>
                 (case data d of
                    Some i \<Rightarrow> Inr (Related_value (RResource (new_identifier registry i)))
                  | None \<Rightarrow> Inl (AttributeError n)))"
    if "x = overwrite_fields registry k kw" for registry k kw
    using hook related_decoded [of registry k kw n] that
    by (simp split: option.splits)
  then show ?thesis using hook by (simp split: option.splits)
qed

text \<open>\<open>child.parent\<close> and \<open>parent.children\<close> on the instances of the tests.\<close>

theorem getattr_related_witness:
  "getattr child_1 ''parent'' =
     Inr (Related_value (RResource (Resource Parent (Some ''1'') [] [] [] [])))
   \<and> getattr parent_1 ''children'' = Inl (AttributeError ''children'')"
proof -
  have a: "getattr child_1 ''parent'' =
     Inr (Related_value (RResource (Resource Parent (Some ''1'') [] [] [] [])))"
    using getattr_related [of "''parent''" child_1] parent_not_member
    by (simp add: child_1_eval class_members)
  have b: "getattr parent_1 ''children'' = Inl (AttributeError ''children'')"
    using getattr_related [of "''children''" parent_1] children_not_member
    by (simp add: parent_1_eval class_members)
  show ?thesis using a b by simp
qed

text \<open>
  The claim as stated fails for a plural relationship that was not fetched:
  \<open>children\<close> is no structural field and no attribute of the parent of the tests, it
  is a key of its relationships, and reading it raises \<open>AttributeError\<close>.
\<close>

theorem getattr_unfetched_plural_counterexample:
  "''children'' \<notin> set [''a'', ''attributes'', ''R'', ''relationships'', ''r'', ''related'',
                        ''id'', ''links'']
   \<and> map_of (attributes parent_1) ''children'' = None
   \<and> map_of (relationships parent_1) ''children'' =
       Some (Some \<lparr>data = None,
                   dlinks = Some [(''self'', ''/parents/1/relationships/children''),
                                  (''related'', ''/parents/1/children'')]\<rparr>)
   \<and> getattr parent_1 ''children'' = Inl (AttributeError ''children'')"
  using children_not_member
  by (simp add: parent_1_eval getattr_def getattr_hook_def object_getattribute_def
      class_members)

section \<open>Resolving a type name\<close>

lemma klass_of_overwrite: "klass_of (overwrite registry k kw) = k"
  by (simp add: overwrite_def Let_def)

lemma rid_overwrite: "rid (overwrite registry k kw) = kw_id kw"
  by (simp add: overwrite_def overwrite_fields_def Let_def)





section \<open>The type check of the constructor\<close>





section \<open>Editing a plural relationship: the frame\<close>

lemma identifiers_instances:
  "identifiers registry (map VResource xs) = Inr (map as_resource_identifier xs)"
  by (induction xs) (simp_all add: as_resource_def identifier_of_def)

lemma edit_plural_frame:
  "snd (fst (edit_plural_relationship registry srv x m n vs log)) = x
   \<and> (snd (edit_plural_relationship registry srv x m n vs log) = log
      \<or> (\<exists>d l u ids. map_of (relationships x) n = Some (Some d) \<and> dlinks d = Some l
            \<and> map_of l ''self'' = Some u
            \<and> snd (edit_plural_relationship registry srv x m n vs log) =
                log @ [\<lparr>req_method = m, url = u, json_body = Some (DataIdentifiers ids),
                         params = None, bulk = False\<rparr>]))
   \<and> (\<forall>d l u ids. map_of (relationships x) n = Some (Some d) \<and> dlinks d = Some l
          \<and> map_of l ''self'' = Some u \<and> identifiers registry vs = Inr ids \<longrightarrow>
          snd (edit_plural_relationship registry srv x m n vs log) =
            log @ [\<lparr>req_method = m, url = u, json_body = Some (DataIdentifiers ids),
                     params = None, bulk = False\<rparr>])"
  by (auto simp add: edit_plural_relationship_def edit_relationship_def jsonapi_request_def
      split: sum.splits prod.splits option.splits)

text \<open>
  C9. \<open>add\<close>, \<open>remove\<close> and \<open>reset\<close> return with the instance as it was, so
  with the same related cache, whatever the values, the server's answer and the
  outcome. Each of them issues no request or exactly one, and that one goes to the
  \<open>self\<close> link of the relationship, as \<open>POST\<close>, \<open>DELETE\<close> and \<open>PATCH\<close>, with the list of
  identifiers as its body. The request is issued whenever the relationship has a
  \<open>self\<close> link and every value converts to an identifier.
\<close>

theorem plural_edits_leave_cache:
  "snd (fst (add registry srv x n vs log)) = x
   \<and> snd (fst (remove registry srv x n vs log)) = x
   \<and> snd (fst (reset registry srv x n vs log)) = x
   \<and> (snd (add registry srv x n vs log) = log
      \<or> (\<exists>d l u ids. map_of (relationships x) n = Some (Some d) \<and> dlinks d = Some l
            \<and> map_of l ''self'' = Some u
            \<and> snd (add registry srv x n vs log) =
                log @ [\<lparr>req_method = ''post'', url = u, json_body = Some (DataIdentifiers ids),
                         params = None, bulk = False\<rparr>]))
   \<and> (snd (remove registry srv x n vs log) = log
      \<or> (\<exists>d l u ids. map_of (relationships x) n = Some (Some d) \<and> dlinks d = Some l
            \<and> map_of l ''self'' = Some u
            \<and> snd (remove registry srv x n vs log) =
                log @ [\<lparr>req_method = ''delete'', url = u, json_body = Some (DataIdentifiers ids),
                         params = None, bulk = False\<rparr>]))
   \<and> (snd (reset registry srv x n vs log) = log
      \<or> (\<exists>d l u ids. map_of (relationships x) n = Some (Some d) \<and> dlinks d = Some l
            \<and> map_of l ''self'' = Some u
            \<and> snd (reset registry srv x n vs log) =
                log @ [\<lparr>req_method = ''patch'', url = u, json_body = Some (DataIdentifiers ids),
                         params = None, bulk = False\<rparr>]))
   \<and> (\<forall>d l u ids. map_of (relationships x) n = Some (Some d) \<and> dlinks d = Some l
          \<and> map_of l ''self'' = Some u \<and> identifiers registry vs = Inr ids \<longrightarrow>
          snd (add registry srv x n vs log) =
            log @ [\<lparr>req_method = ''post'', url = u, json_body = Some (DataIdentifiers ids),
                     params = None, bulk = False\<rparr>]
          \<and> snd (remove registry srv x n vs log) =
            log @ [\<lparr>req_method = ''delete'', url = u, json_body = Some (DataIdentifiers ids),
                     params = None, bulk = False\<rparr>]
          \<and> snd (reset registry srv x n vs log) =
            log @ [\<lparr>req_method = ''patch'', url = u, json_body = Some (DataIdentifiers ids),
                     params = None, bulk = False\<rparr>])"
proof -
  note p = edit_plural_frame [of registry srv x "''post''" n vs log]
  note d = edit_plural_frame [of registry srv x "''delete''" n vs log]
  note r = edit_plural_frame [of registry srv x "''patch''" n vs log]
  have frame: "snd (fst (add registry srv x n vs log)) = x
      \<and> snd (fst (remove registry srv x n vs log)) = x
      \<and> snd (fst (reset registry srv x n vs log)) = x"
    using p d r by (simp add: add_def remove_def reset_def)
  have a: "snd (add registry srv x n vs log) = log
      \<or> (\<exists>d l u ids. map_of (relationships x) n = Some (Some d) \<and> dlinks d = Some l
            \<and> map_of l ''self'' = Some u
            \<and> snd (add registry srv x n vs log) =
                log @ [\<lparr>req_method = ''post'', url = u, json_body = Some (DataIdentifiers ids),
                         params = None, bulk = False\<rparr>])"
    using p unfolding add_def by blast
  have b: "snd (remove registry srv x n vs log) = log
      \<or> (\<exists>d l u ids. map_of (relationships x) n = Some (Some d) \<and> dlinks d = Some l
            \<and> map_of l ''self'' = Some u
            \<and> snd (remove registry srv x n vs log) =
                log @ [\<lparr>req_method = ''delete'', url = u, json_body = Some (DataIdentifiers ids),
                         params = None, bulk = False\<rparr>])"
    using d unfolding remove_def by blast
  have c: "snd (reset registry srv x n vs log) = log
      \<or> (\<exists>d l u ids. map_of (relationships x) n = Some (Some d) \<and> dlinks d = Some l
            \<and> map_of l ''self'' = Some u
            \<and> snd (reset registry srv x n vs log) =
                log @ [\<lparr>req_method = ''patch'', url = u, json_body = Some (DataIdentifiers ids),
                         params = None, bulk = False\<rparr>])"
    using r unfolding reset_def by blast
  have issued: "\<forall>d l u ids. map_of (relationships x) n = Some (Some d) \<and> dlinks d = Some l
          \<and> map_of l ''self'' = Some u \<and> identifiers registry vs = Inr ids \<longrightarrow>
          snd (add registry srv x n vs log) =
            log @ [\<lparr>req_method = ''post'', url = u, json_body = Some (DataIdentifiers ids),
                     params = None, bulk = False\<rparr>]
          \<and> snd (remove registry srv x n vs log) =
            log @ [\<lparr>req_method = ''delete'', url = u, json_body = Some (DataIdentifiers ids),
                     params = None, bulk = False\<rparr>]
          \<and> snd (reset registry srv x n vs log) =
            log @ [\<lparr>req_method = ''patch'', url = u, json_body = Some (DataIdentifiers ids),
                     params = None, bulk = False\<rparr>]"
    using p d r unfolding add_def remove_def reset_def by blast
  show ?thesis using frame a b c issued by blast
qed

text \<open>
  The call of \<^verbatim>\<open>test_add\<close>: an instance, a relationship and an identifier are added
  to the children of a parent whose cache holds a Queryset; the cache is as before
  and the one request is the one the test expects.
\<close>

theorem plural_edits_leave_cache_witness:
  "add test_registry quiet_server
     (set_related parent_1 ''children'' (RQueryset (from_data (Collection []))))
     ''children''
     [VResource child_1,
      VDict (Envelope (no_kwargs\<lparr>kw_id := Some ''2'', kw_type := Some ''children''\<rparr>) None),
      VDict (Bare (no_kwargs\<lparr>kw_id := Some ''3'', kw_type := Some ''children''\<rparr>))] [] =
   ((None, set_related parent_1 ''children'' (RQueryset (from_data (Collection [])))),
    [\<lparr>req_method = ''post'', url = ''/parents/1/relationships/children'',
      json_body = Some (DataIdentifiers
        [\<lparr>itype = Some ''children'', iid = Some ''1''\<rparr>,
         \<lparr>itype = Some ''children'', iid = Some ''2''\<rparr>,
         \<lparr>itype = Some ''children'', iid = Some ''3''\<rparr>]),
      params = None, bulk = False\<rparr>])"
proof -
  let ?x = "set_related parent_1 ''children'' (RQueryset (from_data (Collection [])))"
  let ?d = "\<lparr>data = None,
              dlinks = Some [(''self'', ''/parents/1/relationships/children''),
                             (''related'', ''/parents/1/children'')]\<rparr>"
  let ?vs = "[VResource child_1,
      VDict (Envelope (no_kwargs\<lparr>kw_id := Some ''2'', kw_type := Some ''children''\<rparr>) None),
      VDict (Bare (no_kwargs\<lparr>kw_id := Some ''3'', kw_type := Some ''children''\<rparr>))]"
  have r: "map_of (relationships ?x) ''children'' = Some (Some ?d)"
    by (simp add: parent_1_eval set_related_def)
  have l: "dlinks ?d = Some [(''self'', ''/parents/1/relationships/children''),
                             (''related'', ''/parents/1/children'')]"
    by simp
  have u: "map_of [(''self'', ''/parents/1/relationships/children''),
                   (''related'', ''/parents/1/children'')] ''self'' =
           Some ''/parents/1/relationships/children''"
    by simp
  have ids: "identifiers test_registry ?vs =
      Inr [\<lparr>itype = Some ''children'', iid = Some ''1''\<rparr>,
           \<lparr>itype = Some ''children'', iid = Some ''2''\<rparr>,
           \<lparr>itype = Some ''children'', iid = Some ''3''\<rparr>]"
    by (simp add: as_resource_def identifier_of_def new_def new_kw_def init_def
        no_kwargs_def test_registry_get klass_of_overwrite rid_overwrite
        as_resource_identifier_def class_types child_1_eval)
  have none: "fst (fst (add test_registry quiet_server ?x ''children'' ?vs [])) = None"
    using r ids
    by (simp add: add_def edit_plural_relationship_def edit_relationship_def
        jsonapi_request_def quiet_server_def)
  show ?thesis
    using plural_edits_leave_cache [of test_registry quiet_server ?x "''children''" ?vs "[]"]
      r l u ids none
    by (simp add: prod_eq_iff)
qed

section \<open>Bulk items\<close>

lemma entries_append_error:
  "entries f pre = Inr payload \<Longrightarrow> f bad = Inl e \<Longrightarrow> entries f (pre @ bad # rest) = Inl e"
  by (induction pre arbitrary: payload) (auto split: sum.splits)

text \<open>
  C10, as amended. \<open>_extract_from_item\<close> raises \<open>TypeError\<close> and returns no triple
  for an item that is no instance and no dictionary when it is an iterable of a
  length other than two and three, from the final statement
  \<^verbatim>\<open>relationships, id = None\<close>, and when it cannot be iterated, from the first
  unpacking \<^verbatim>\<open>attributes, relationships, id = item\<close>. \<open>bulk_create\<close> and \<open>bulk_update\<close>
  raise the error of \<open>_extract_from_item\<close> at the first such item, with no request
  issued, when every item before it gives an entry.
\<close>

theorem extract_rejects:
  "(length es \<noteq> 2 \<and> length es \<noteq> 3 \<longrightarrow>
      extract_from_item (ItemSequence es) = Inl (TypeError ''relationships, id = None''))
   \<and> extract_from_item (ItemScalar j) = Inl (TypeError ''attributes, relationships, id = item'')
   \<and> (\<forall>bad e. extract_from_item bad = Inl e \<longrightarrow>
        (\<forall>pre payload rest. entries (create_entry registry k) pre = Inr payload \<longrightarrow>
           bulk_create registry srv k (pre @ bad # rest) log = (Inl e, log))
        \<and> (\<forall>pre payload rest.
             entries (update_entry registry k
                        (if field_names = None then c_EDITABLE k else field_names)) pre
               = Inr payload \<longrightarrow>
             bulk_update registry srv k (pre @ bad # rest) field_names log = (Inl e, log)))"
proof -
  have seq: "extract_from_item (ItemSequence es) = Inl (TypeError ''relationships, id = None'')"
    if "length es \<noteq> 2" "length es \<noteq> 3"
    using that by (auto simp add: extract_from_item_def split: list.splits)
  have sc: "extract_from_item (ItemScalar j) =
      Inl (TypeError ''attributes, relationships, id = item'')"
    by (simp add: extract_from_item_def)
  have c: "bulk_create registry srv k (pre @ bad # rest) log = (Inl e, log)"
    if "extract_from_item bad = Inl e" "entries (create_entry registry k) pre = Inr payload"
    for bad e pre payload rest
  proof -
    have "create_entry registry k bad = Inl e"
      using that(1) by (simp add: create_entry_def)
    then show ?thesis
      using entries_append_error [OF that(2)] by (simp add: bulk_create_def)
  qed
  have u: "bulk_update registry srv k (pre @ bad # rest) field_names log = (Inl e, log)"
    if "extract_from_item bad = Inl e"
      "entries (update_entry registry k
                  (if field_names = None then c_EDITABLE k else field_names)) pre = Inr payload"
    for bad e pre payload rest
  proof -
    have "update_entry registry k fs bad = Inl e" for fs
      using that(1) by (simp add: update_entry_def)
    then show ?thesis
      using entries_append_error [OF that(2)] by (simp add: bulk_update_def Let_def)
  qed
  show ?thesis using seq sc c u by blast
qed

text \<open>
  A one-element tuple alone, after a good item in \<open>bulk_create\<close>, and a number after
  a good item in \<open>bulk_update\<close>.
\<close>

theorem extract_rejects_witness:
  "extract_from_item (ItemSequence [BDict [(''username'', VOther (JStr ''username1''))]]) =
     Inl (TypeError ''relationships, id = None'')
   \<and> bulk_create test_registry quiet_server Child
       [ItemSequence [BDict [(''username'', VOther (JStr ''username1''))], BNone],
        ItemSequence [BDict [(''username'', VOther (JStr ''username2''))]]] [] =
     (Inl (TypeError ''relationships, id = None''), [])
   \<and> bulk_update test_registry quiet_server Child
       [ItemSequence [BDict [(''username'', VOther (JStr ''username1''))], BNone, BStr ''1''],
        ItemScalar (JInt 5)] None [] =
     (Inl (TypeError ''attributes, relationships, id = item''), [])"
proof -
  let ?one = "[BDict [(''username'', VOther (JStr ''username2''))]]"
  let ?first = "ItemSequence [BDict [(''username'', VOther (JStr ''username1''))], BNone]"
  let ?firstu = "ItemSequence [BDict [(''username'', VOther (JStr ''username1''))], BNone, BStr ''1'']"
  note t = extract_rejects [of "[BDict [(''username'', VOther (JStr ''username1''))]]" "JInt 5"
      test_registry Child quiet_server "[]" None]
  note t2 = extract_rejects [of ?one "JInt 5" test_registry Child quiet_server "[]" None]
  have a: "extract_from_item (ItemSequence [BDict [(''username'', VOther (JStr ''username1''))]]) =
     Inl (TypeError ''relationships, id = None'')"
    using t by simp
  have bad: "extract_from_item (ItemSequence ?one) = Inl (TypeError ''relationships, id = None'')"
    using t2 by simp
  have pre: "entries (create_entry test_registry Child) [?first] =
      Inr [\<lparr>e_type = Some ''children'', e_id = BNone,
            e_attributes = Some (BDict [(''username'', VOther (JStr ''username1''))]),
            e_relationships = None\<rparr>]"
    by (simp add: create_entry_def extract_from_item_def class_types)
  have b: "bulk_create test_registry quiet_server Child ([?first] @ ItemSequence ?one # []) [] =
     (Inl (TypeError ''relationships, id = None''), [])"
    using t2 bad pre by blast
  have sc: "extract_from_item (ItemScalar (JInt 5)) =
      Inl (TypeError ''attributes, relationships, id = item'')"
    using t by simp
  have preu: "entries (update_entry test_registry Child
                (if (None :: string list option) = None then c_EDITABLE Child else None)) [?firstu] =
      Inr [\<lparr>e_type = Some ''children'', e_id = BStr ''1'',
            e_attributes = Some (BDict [(''username'', VOther (JStr ''username1''))]),
            e_relationships = None\<rparr>]"
    by (simp add: update_entry_def extract_from_item_def class_types restrict_to_def
        truthy_def Child_def)
  have c: "bulk_update test_registry quiet_server Child ([?firstu] @ ItemScalar (JInt 5) # []) None [] =
     (Inl (TypeError ''attributes, relationships, id = item''), [])"
    using t sc preu by blast
  show ?thesis using a b c by simp
qed

text \<open>
  The claim as stated fails for an item that cannot be iterated: the \<open>TypeError\<close>
  for the number 5 comes from the first unpacking, and the final statement is not
  reached.
\<close>

theorem extract_scalar_counterexample:
  "extract_from_item (ItemScalar (JInt 5)) =
     Inl (TypeError ''attributes, relationships, id = item'')
   \<and> extract_from_item (ItemScalar (JInt 5)) \<noteq> Inl (TypeError ''relationships, id = None'')"
  by (simp add: extract_from_item_def)


end
